theory Spec2Isabelle
  imports Complex_Main
begin

section \<open>Text Normalizer\<close>

text \<open>
  \<^verbatim>\<open>TicketClusteringEngine._preprocess_ticket\<close> (clustering.py, lines 322-344).
  A text is a list of code points, one \<^typ>\<open>char\<close> each; the type covers the code points
  below 256 (ASCII and the Latin-1 block), on which Python's \<^verbatim>\<open>str.lower\<close> maps one
  character to one character. The character classes are those of Python 3 on these code points:
  \<open>is_space\<close> is \<^verbatim>\<open>str.isspace\<close>, which is also the class \<^verbatim>\<open>\s\<close> of \<^verbatim>\<open>re\<close> and the separator
  set of \<^verbatim>\<open>str.split()\<close> and \<^verbatim>\<open>str.strip()\<close>; \<open>is_alnum\<close> is \<^verbatim>\<open>str.isalnum\<close>; \<open>is_word\<close> is
  the class \<^verbatim>\<open>\w\<close> of \<^verbatim>\<open>re\<close>, the alphanumerics and the underscore.
\<close>

definition code :: "char \<Rightarrow> nat" where
  "code c = of_char c"

definition is_space :: "char \<Rightarrow> bool" where
  "is_space c = (let n = code c in (9 \<le> n \<and> n \<le> 13) \<or> (28 \<le> n \<and> n \<le> 32) \<or> n = 133 \<or> n = 160)"

definition is_alnum :: "char \<Rightarrow> bool" where
  "is_alnum c = (let n = code c in
     (48 \<le> n \<and> n \<le> 57) \<or> (65 \<le> n \<and> n \<le> 90) \<or> (97 \<le> n \<and> n \<le> 122) \<or> n = 170
     \<or> (178 \<le> n \<and> n \<le> 179) \<or> n = 181 \<or> (185 \<le> n \<and> n \<le> 186) \<or> (188 \<le> n \<and> n \<le> 190)
     \<or> (192 \<le> n \<and> n \<le> 214) \<or> (216 \<le> n \<and> n \<le> 246) \<or> 248 \<le> n)"

definition is_word :: "char \<Rightarrow> bool" where
  "is_word c = (is_alnum c \<or> c = CHR ''_'')"

definition lower_char :: "char \<Rightarrow> char" where
  "lower_char c = (let n = code c in
     if (65 \<le> n \<and> n \<le> 90) \<or> (192 \<le> n \<and> n \<le> 214) \<or> (216 \<le> n \<and> n \<le> 222)
     then char_of (n + 32) else c)"

text \<open>\<^verbatim>\<open>ticket.lower()\<close> and \<^verbatim>\<open>.strip()\<close>.\<close>

definition lower :: "string \<Rightarrow> string" where
  "lower s = map lower_char s"

definition strip :: "string \<Rightarrow> string" where
  "strip s = rev (dropWhile is_space (rev (dropWhile is_space s)))"

text \<open>\<^verbatim>\<open>re.sub(r'[^\w\s]', ' ', text)\<close>.\<close>

definition sub_special :: "string \<Rightarrow> string" where
  "sub_special s = map (\<lambda>c. if \<not> is_word c \<and> \<not> is_space c then CHR '' '' else c) s"

text \<open>
  \<^verbatim>\<open>re.sub(r'\s+', ' ', text)\<close>: a left-to-right scan that writes one space for each maximal
  run of whitespace; the flag says whether the scan is inside a run.
\<close>

fun collapse_run :: "bool \<Rightarrow> string \<Rightarrow> string" where
  "collapse_run in_run [] = []"
| "collapse_run in_run (c # cs) =
     (if is_space c then (if in_run then collapse_run True cs else CHR '' '' # collapse_run True cs)
      else c # collapse_run False cs)"

definition collapse_ws :: "string \<Rightarrow> string" where
  "collapse_ws s = collapse_run False s"

text \<open>
  \<^verbatim>\<open>text.split()\<close>: the scan collects the characters of the current word and emits it at
  the next whitespace character or at the end; empty words are never emitted.
\<close>

fun split_acc :: "string \<Rightarrow> string \<Rightarrow> string list" where
  "split_acc w [] = (if w = [] then [] else [w])"
| "split_acc w (c # cs) =
     (if is_space c then (if w = [] then split_acc [] cs else w # split_acc [] cs)
      else split_acc (w @ [c]) cs)"

definition split_ws :: "string \<Rightarrow> string list" where
  "split_ws s = split_acc [] s"

text \<open>\<^verbatim>\<open>' '.join(words)\<close>.\<close>

fun join_sp :: "string list \<Rightarrow> string" where
  "join_sp [] = []"
| "join_sp [w] = w"
| "join_sp (w # ws) = w @ CHR '' '' # join_sp ws"

definition preprocess_ticket :: "string \<Rightarrow> string" where
  "preprocess_ticket ticket =
     (let text = strip (lower ticket);
          text = sub_special text;
          text = collapse_ws text;
          words = filter (\<lambda>word. 2 \<le> length word) (split_ws text)
      in join_sp words)"

text \<open>
  The normalizer as the specification words it, for comparison with the code: lower-case,
  replace every non-alphanumeric, non-whitespace character by a space, collapse runs of
  whitespace, drop the tokens shorter than two characters, trim.
\<close>

definition normalize_claimed :: "string \<Rightarrow> string" where
  "normalize_claimed text =
     strip (join_sp (filter (\<lambda>w. 2 \<le> length w) (split_ws (collapse_ws
       (map (\<lambda>c. if is_alnum c \<or> is_space c then c else CHR '' '') (lower text))))))"

text \<open>The same wording with the word characters of \<^verbatim>\<open>\w\<close> (alphanumeric or underscore) kept.\<close>

definition normalize_amended :: "string \<Rightarrow> string" where
  "normalize_amended text =
     strip (join_sp (filter (\<lambda>w. 2 \<le> length w) (split_ws (collapse_ws
       (map (\<lambda>c. if is_word c \<or> is_space c then c else CHR '' '') (lower text))))))"

text \<open>A token is a non-empty word without whitespace.\<close>

definition token :: "string \<Rightarrow> bool" where
  "token w = (w \<noteq> [] \<and> (\<forall>c\<in>set w. \<not> is_space c))"

section \<open>Cluster Count Heuristic\<close>

text \<open>
  \<^verbatim>\<open>TicketClusteringEngine._determine_cluster_count\<close> (clustering.py, lines 492-513).
  Python integers are unbounded, so the ticket count is an \<^typ>\<open>int\<close>; Python's \<^verbatim>\<open>//\<close> is
  floor division, which is \<open>div\<close> on \<^typ>\<open>int\<close>.
\<close>

definition determine_cluster_count :: "int \<Rightarrow> int" where
  "determine_cluster_count num_tickets =
     (if num_tickets \<le> 2 then 1
      else if num_tickets \<le> 5 then 2
      else if num_tickets \<le> 10 then 3
      else if num_tickets \<le> 20 then min 4 (num_tickets div 3)
      else if num_tickets \<le> 50 then min 6 (num_tickets div 5)
      else min 10 (num_tickets div 8))"

section \<open>Vector Similarity Store\<close>

text \<open>
  \<^verbatim>\<open>TicketVectorStore\<close> (vector_store.py). An embedding is a vector of floating-point
  numbers and a NumPy array of embeddings is the list of its rows. A float is modelled by the
  real number it denotes, and every arithmetic operation rounds its exact result to the
  format of the array: NumPy computes on the embeddings in binary64, the index holds and
  multiplies binary32 numbers (the casts \<^verbatim>\<open>astype(np.float32)\<close> of lines 82, 91 and 126).
\<close>

type_synonym vec = "real list"

text \<open>
  IEEE 754 rounding to the nearest number with a significand of \<open>p\<close> bits, ties to the even
  significand: \<open>e\<close> is the exponent of \<open>x\<close> and \<open>ulp\<close> the distance of neighbouring
  numbers of the format around \<open>x\<close>. The exponent range is not modelled: no overflow to
  infinity, no subnormal numbers and no NaN.
\<close>

definition round_half_even :: "real \<Rightarrow> int" where
  "round_half_even y =
     (let f = \<lfloor>y\<rfloor>; r = y - of_int f
      in if r < 1 / 2 then f else if 1 / 2 < r then f + 1 else if even f then f else f + 1)"

definition fl :: "nat \<Rightarrow> real \<Rightarrow> real" where
  "fl p x =
     (if x = 0 then 0
      else let e = \<lfloor>log 2 \<bar>x\<bar>\<rfloor>;
               ulp = 2 powr (of_int e - of_nat p + 1)
           in of_int (round_half_even (x / ulp)) * ulp)"

definition f64 :: "real \<Rightarrow> real" where
  "f64 x = fl 53 x"

definition f32 :: "real \<Rightarrow> real" where
  "f32 x = fl 24 x"

text \<open>
  Sums, \<^verbatim>\<open>np.dot\<close> on two vectors and \<^verbatim>\<open>np.linalg.norm\<close> on one row, in binary64. The
  additions of a sum are taken from left to right.
\<close>

definition fsum :: "real list \<Rightarrow> real" where
  "fsum xs = foldl (\<lambda>acc x. f64 (acc + x)) 0 xs"

definition dot :: "vec \<Rightarrow> vec \<Rightarrow> real" where
  "dot a b = fsum (map2 (\<lambda>x y. f64 (x * y)) a b)"

definition l2_norm :: "vec \<Rightarrow> real" where
  "l2_norm v = f64 (sqrt (fsum (map (\<lambda>x. f64 (x * x)) v)))"

text \<open>
  \<^verbatim>\<open>_normalize_embeddings\<close> (lines 273-286): every row is divided by its norm, and a norm
  of zero is replaced by one first.
\<close>

definition normalize_row :: "vec \<Rightarrow> vec" where
  "normalize_row v =
     (let norm = l2_norm v; norm = (if norm = 0 then 1 else norm) in map (\<lambda>x. f64 (x / norm)) v)"

definition normalize_embeddings :: "vec list \<Rightarrow> vec list" where
  "normalize_embeddings embeddings = map normalize_row embeddings"

text \<open>The cast \<^verbatim>\<open>astype(np.float32)\<close> of an array.\<close>

definition astype_float32 :: "vec list \<Rightarrow> vec list" where
  "astype_float32 rows = map (map f32) rows"

text \<open>
  \<^verbatim>\<open>_calculate_cluster_cohesion\<close> (lines 288-309): \<^verbatim>\<open>np.dot(normalized, normalized.T)\<close>,
  \<^verbatim>\<open>np.triu(similarity_matrix, k=1)\<close>, which keeps the entries right of the diagonal and
  writes zero elsewhere, the boolean mask \<^verbatim>\<open>upper_triangle[upper_triangle > 0]\<close>, which lists
  in row-major order the entries of the whole matrix that are positive, and \<^verbatim>\<open>np.mean\<close>.
\<close>

definition similarity_matrix :: "vec list \<Rightarrow> real list list" where
  "similarity_matrix normalized = map (\<lambda>a. map (\<lambda>b. dot a b) normalized) normalized"

definition triu1 :: "real list list \<Rightarrow> real list list" where
  "triu1 m = map (\<lambda>(i, row). map (\<lambda>(j, x). if i < j then x else 0) (enumerate 0 row)) (enumerate 0 m)"

definition mean :: "real list \<Rightarrow> real" where
  "mean xs = f64 (fsum xs / real (length xs))"

definition calculate_cluster_cohesion :: "vec list \<Rightarrow> real" where
  "calculate_cluster_cohesion cluster_embeddings =
     (if length cluster_embeddings \<le> 1 then 1
      else let normalized = normalize_embeddings cluster_embeddings;
               similarity_matrix = similarity_matrix normalized;
               upper_triangle = triu1 similarity_matrix;
               similarities = filter (\<lambda>x. 0 < x) (concat upper_triangle)
           in if 0 < length similarities then mean similarities else 0)"

text \<open>
  The cohesion as the documentation and the specification word it, in exact arithmetic: the
  cosine similarity of two vectors is their inner product divided by the product of their
  norms, the pairs are those of the upper triangle, \<open>i < j\<close>, and the score is the
  arithmetic mean over all pairs.
\<close>

definition inner_product :: "vec \<Rightarrow> vec \<Rightarrow> real" where
  "inner_product a b = sum_list (map2 (*) a b)"

definition cosine :: "vec \<Rightarrow> vec \<Rightarrow> real" where
  "cosine a b = inner_product a b / (sqrt (inner_product a a) * sqrt (inner_product b b))"

definition pairwise_cosines :: "vec list \<Rightarrow> real list" where
  "pairwise_cosines vs =
     concat (map (\<lambda>i. map (\<lambda>j. cosine (vs ! i) (vs ! j)) [Suc i..<length vs]) [0..<length vs])"

definition mean_pairwise_cosine :: "vec list \<Rightarrow> real" where
  "mean_pairwise_cosine vs = sum_list (pairwise_cosines vs) / real (length (pairwise_cosines vs))"

text \<open>
  Exceptions are values: a function that can raise returns \<open>py_error + 'a\<close>, and a
  \<^verbatim>\<open>try ... except Exception\<close> is a case distinction on that result.
\<close>

datatype py_error = ValueError | IndexError | KeyError | AttributeError | FaissError | ProviderError | SklearnError

text \<open>A metadata dictionary maps string keys to values.\<close>

datatype pyval = PInt int | PStr string | PFloat real

type_synonym pydict = "string \<rightharpoonup> pyval"

text \<open>Python list indexing: a negative index counts from the end, an index out of range raises.\<close>

definition py_index :: "'a list \<Rightarrow> int \<Rightarrow> py_error + 'a" where
  "py_index xs i =
     (let n = int (length xs); j = (if i < 0 then n + i else i)
      in if 0 \<le> j \<and> j < n then Inr (xs ! nat j) else Inl IndexError)"

text \<open>
  Modelled from the spec: the FAISS index objects (\<^verbatim>\<open>faiss.IndexFlatIP\<close>, \<^verbatim>\<open>faiss.IndexIVFFlat\<close>),
  which belong to a library outside the repository. An index has a dimension, a trained flag
  and the vectors added so far. \<^verbatim>\<open>train\<close> and \<^verbatim>\<open>add\<close> reject rows of another dimension, and
  \<^verbatim>\<open>add\<close> and \<^verbatim>\<open>search\<close> reject an untrained index; a rejected call changes nothing.
  \<^verbatim>\<open>search\<close> is the top-k inner-product search of the specification: the \<open>k\<close> best
  scores in descending order, each with the position of its vector, padded with position
  \<open>-1\<close> and the lowest float when fewer than \<open>k\<close> vectors are held. The approximate
  variant is modelled by the same exhaustive search. The index computes in binary32:
  \<open>inner_product32\<close> rounds every product and every partial sum, from left to right.
\<close>

datatype index_kind = IndexFlatIP | IndexIVFFlat

record faiss_index =
  kind :: index_kind
  d :: nat
  index_trained :: bool
  vectors :: "vec list"

definition index_flat_ip :: "nat \<Rightarrow> faiss_index" where
  "index_flat_ip dm = \<lparr>kind = IndexFlatIP, d = dm, index_trained = True, vectors = []\<rparr>"

definition index_ivf_flat :: "nat \<Rightarrow> faiss_index" where
  "index_ivf_flat dm = \<lparr>kind = IndexIVFFlat, d = dm, index_trained = False, vectors = []\<rparr>"

definition ntotal :: "faiss_index \<Rightarrow> nat" where
  "ntotal idx = length (vectors idx)"

definition index_train :: "faiss_index \<Rightarrow> vec list \<Rightarrow> py_error + faiss_index" where
  "index_train idx xs =
     (if list_all (\<lambda>x. length x = d idx) xs then Inr (idx\<lparr>index_trained := True\<rparr>) else Inl FaissError)"

definition index_add :: "faiss_index \<Rightarrow> vec list \<Rightarrow> py_error + faiss_index" where
  "index_add idx xs =
     (if index_trained idx \<and> list_all (\<lambda>x. length x = d idx) xs
      then Inr (idx\<lparr>vectors := vectors idx @ xs\<rparr>) else Inl FaissError)"

definition inner_product32 :: "vec \<Rightarrow> vec \<Rightarrow> real" where
  "inner_product32 q v = foldl (\<lambda>acc (x, y). f32 (acc + f32 (x * y))) 0 (zip q v)"

definition lowest_float :: real where
  "lowest_float = - 340282346638528859811704183484516925440"

definition index_search :: "faiss_index \<Rightarrow> vec \<Rightarrow> int \<Rightarrow> py_error + (real \<times> int) list" where
  "index_search idx q k =
     (if index_trained idx \<and> length q = d idx \<and> 0 < k
      then let scored = map (\<lambda>(i, v). (inner_product32 q v, int i)) (enumerate 0 (vectors idx));
               ranked = sort_key (\<lambda>(score, i). - score) scored;
               hits = take (nat k) ranked
           in Inr (hits @ replicate (nat k - length hits) (lowest_float, - 1))
      else Inl FaissError)"

text \<open>The attributes of \<^verbatim>\<open>TicketVectorStore\<close> (lines 35-39).\<close>

record vector_store =
  dimension :: nat
  index_type :: string
  index :: "faiss_index option"
  metadata :: "pydict list"
  is_trained :: bool

text \<open>\<^verbatim>\<open>_initialize_index\<close> (lines 46-59) and \<^verbatim>\<open>__init__\<close> (lines 27-44).\<close>

definition initialize_index :: "vector_store \<Rightarrow> py_error + vector_store" where
  "initialize_index self =
     (if index_type self = ''flat''
      then Inr (self\<lparr>index := Some (index_flat_ip (dimension self)), is_trained := True\<rparr>)
      else if index_type self = ''ivf''
      then Inr (self\<lparr>index := Some (index_ivf_flat (dimension self)), is_trained := False\<rparr>)
      else Inl ValueError)"

definition new_vector_store :: "nat \<Rightarrow> string \<Rightarrow> py_error + vector_store" where
  "new_vector_store dm ty =
     initialize_index \<lparr>dimension = dm, index_type = ty, index = None, metadata = [], is_trained = False\<rparr>"

text \<open>
  \<^verbatim>\<open>store_embeddings\<close> (lines 61-102). The attributes are mutated in place, so each step
  returns the store as it is when the step ends, also when it ends by raising.
  \<open>train_if_necessary\<close> is the block of lines 80-87, \<open>store_embeddings_try\<close> the body of
  the \<^verbatim>\<open>try\<close>, and \<open>store_embeddings\<close> adds the handler, which returns \<^verbatim>\<open>False\<close>.
\<close>

definition train_if_necessary :: "vector_store \<Rightarrow> vec list \<Rightarrow> (py_error + unit) \<times> vector_store" where
  "train_if_necessary self normalized_embeddings =
     (if \<not> is_trained self \<and> index_type self = ''ivf'' then
        if 100 \<le> length normalized_embeddings then
          (case index self of
             None \<Rightarrow> (Inl AttributeError, self)
           | Some idx \<Rightarrow>
               (case index_train idx (astype_float32 normalized_embeddings) of
                  Inl e \<Rightarrow> (Inl e, self)
                | Inr idx' \<Rightarrow> (Inr (), self\<lparr>index := Some idx', is_trained := True\<rparr>)))
        else
          (case initialize_index self of
             Inl e \<Rightarrow> (Inl e, self)
           | Inr self' \<Rightarrow> (Inr (), self'))
      else (Inr (), self))"

definition store_embeddings_try :: "vector_store \<Rightarrow> vec list \<Rightarrow> pydict list \<Rightarrow> (py_error + bool) \<times> vector_store" where
  "store_embeddings_try self embeddings md =
     (if length embeddings \<noteq> length md then (Inl ValueError, self)
      else
        let normalized_embeddings = normalize_embeddings embeddings in
        case train_if_necessary self normalized_embeddings of
          (Inl e, self1) \<Rightarrow> (Inl e, self1)
        | (Inr u, self1) \<Rightarrow>
            if is_trained self1 then
              (case index self1 of
                 None \<Rightarrow> (Inl AttributeError, self1)
               | Some idx \<Rightarrow>
                   (case index_add idx (astype_float32 normalized_embeddings) of
                      Inl e \<Rightarrow> (Inl e, self1)
                    | Inr idx' \<Rightarrow> (Inr True, self1\<lparr>index := Some idx', metadata := metadata self1 @ md\<rparr>)))
            else (Inr False, self1))"

definition store_embeddings :: "vector_store \<Rightarrow> vec list \<Rightarrow> pydict list \<Rightarrow> (py_error + bool) \<times> vector_store" where
  "store_embeddings self embeddings md =
     (case store_embeddings_try self embeddings md of
        (Inl e, self') \<Rightarrow> (Inr False, self')
      | (Inr ok, self') \<Rightarrow> (Inr ok, self'))"

text \<open>
  \<^verbatim>\<open>search_similar_tickets\<close> (lines 104-141). \<open>with_similarity_score\<close> is the copy of a
  metadata entry with the key \<^verbatim>\<open>similarity_score\<close> set, \<open>similarity_score\<close> reads that key,
  and \<open>kept\<close> is the filter of line 131, which compares the score and the threshold as
  numbers. \<open>collect_results\<close> is the loop of lines 130-134; it raises at the first hit
  whose metadata is missing.
\<close>

definition with_similarity_score :: "pydict \<Rightarrow> real \<Rightarrow> pydict" where
  "with_similarity_score m score = m(''similarity_score'' \<mapsto> PFloat score)"



fun collect_results :: "pydict list \<Rightarrow> real \<Rightarrow> (real \<times> int) list \<Rightarrow> py_error + pydict list" where
  "collect_results md threshold [] = Inr []"
| "collect_results md threshold ((score, idx) # rest) =
     (if idx \<noteq> - 1 \<and> threshold \<le> score then
        (case py_index md idx of
           Inl e \<Rightarrow> Inl e
         | Inr m \<Rightarrow>
             (case collect_results md threshold rest of
                Inl e \<Rightarrow> Inl e
              | Inr results \<Rightarrow> Inr (with_similarity_score m score # results)))
      else collect_results md threshold rest)"

definition search_similar_tickets_try :: "vector_store \<Rightarrow> vec \<Rightarrow> int \<Rightarrow> real \<Rightarrow> py_error + pydict list" where
  "search_similar_tickets_try self query_embedding k threshold =
     (case index self of
        None \<Rightarrow> Inl AttributeError
      | Some idx \<Rightarrow>
          if ntotal idx = 0 then Inr []
          else
            (case astype_float32 (normalize_embeddings [query_embedding]) of
               [normalized_query] \<Rightarrow>
                 (case index_search idx normalized_query k of
                    Inl e \<Rightarrow> Inl e
                  | Inr hits \<Rightarrow> collect_results (metadata self) threshold hits)
             | _ \<Rightarrow> Inl ValueError))"

definition search_similar_tickets :: "vector_store \<Rightarrow> vec \<Rightarrow> int \<Rightarrow> real \<Rightarrow> py_error + pydict list" where
  "search_similar_tickets self query_embedding k threshold =
     (case search_similar_tickets_try self query_embedding k threshold of
        Inl e \<Rightarrow> Inr []
      | Inr results \<Rightarrow> Inr results)"

text \<open>
  The vectors held by the store, a sequence of insert calls, and the invariant of every store
  built by the constructor and insert calls.
\<close>

definition stored_vectors :: "vector_store \<Rightarrow> vec list" where
  "stored_vectors self = (case index self of None \<Rightarrow> [] | Some idx \<Rightarrow> vectors idx)"

fun insert_all :: "vector_store \<Rightarrow> (vec list \<times> pydict list) list \<Rightarrow> vector_store" where
  "insert_all self [] = self"
| "insert_all self ((embeddings, md) # batches) = insert_all (snd (store_embeddings self embeddings md)) batches"

definition store_inv :: "vector_store \<Rightarrow> bool" where
  "store_inv self =
     (case index self of
        None \<Rightarrow> False
      | Some idx \<Rightarrow>
          length (metadata self) = length (vectors idx)
          \<and> d idx = dimension self
          \<and> list_all (\<lambda>v. length v = d idx) (vectors idx)
          \<and> index_trained idx = is_trained self
          \<and> (is_trained self \<or> (index_type self = ''ivf'' \<and> idx = index_ivf_flat (dimension self) \<and> metadata self = [])))"

section \<open>Embedding Clustering Controller\<close>

text \<open>
  \<^verbatim>\<open>TicketClusteringEngine\<close> (clustering.py). The services outside the repository are
  parameters of the model, each a function that returns its result or raises:
  \<open>embeddings_create\<close> is the embedding request of lines 155-160 and returns one row per
  text it answers; \<open>ask_openai_for_cluster_name\<close> is the naming oracle, the chat request of
  \<^verbatim>\<open>_ask_openai_for_cluster_name\<close> (lines 197-232) together with the clean-up of its answer
  (strip, unquote, title-case, cut to 50 characters, \<^verbatim>\<open>General Issues\<close> for an empty answer);
  \<open>tfidf_fit_transform\<close> is \<^verbatim>\<open>TfidfVectorizer.fit_transform\<close>; \<open>kmeans_fit_predict\<close> is
  \<^verbatim>\<open>KMeans(n_clusters, random_state=42, n_init=10).fit_predict\<close> and returns the labels.
\<close>

record collaborators =
  embeddings_create :: "string list \<Rightarrow> py_error + vec list"
  ask_openai_for_cluster_name :: "string list \<Rightarrow> py_error + string"
  tfidf_fit_transform :: "string list \<Rightarrow> py_error + vec list"
  kmeans_fit_predict :: "int \<Rightarrow> vec list \<Rightarrow> py_error + nat list"

text \<open>
  The attributes of the engine and \<^verbatim>\<open>__init__\<close> (lines 33-68); \<open>client_ready\<close> says that
  the API key is set and the client was constructed.
\<close>

record engine =
  use_openai :: bool
  use_vector_store :: bool
  vector_store :: "vector_store option"

definition new_engine :: "bool \<Rightarrow> bool \<Rightarrow> engine" where
  "new_engine client_ready use_vs =
     \<lparr>use_openai = client_ready, use_vector_store = use_vs,
      vector_store = (if use_vs \<and> client_ready
                      then (case new_vector_store 1536 ''flat'' of Inl e \<Rightarrow> None | Inr vs \<Rightarrow> Some vs)
                      else None)\<rparr>"

text \<open>\<^verbatim>\<open>_generate_embeddings\<close> (lines 140-166): the handler logs and raises again.\<close>

definition generate_embeddings :: "collaborators \<Rightarrow> string list \<Rightarrow> py_error + vec list" where
  "generate_embeddings c tickets =
     (let processed_tickets = map preprocess_ticket tickets
      in case embeddings_create c processed_tickets of Inl e \<Rightarrow> Inl e | Inr embeddings \<Rightarrow> Inr embeddings)"

text \<open>
  A dictionary with insertion order is a list of key-value pairs; \<open>dict_set\<close> is the
  assignment \<^verbatim>\<open>d[k] = v\<close>, which replaces the value of a key that is present and appends
  a new key. \<open>group_by_label\<close> is the loop of lines 124-128 and 260-264 over
  \<^verbatim>\<open>enumerate(cluster_labels)\<close>.
\<close>

fun dict_set :: "'k \<Rightarrow> 'v \<Rightarrow> ('k \<times> 'v) list \<Rightarrow> ('k \<times> 'v) list" where
  "dict_set k v [] = [(k, v)]"
| "dict_set k v ((k', v') # rest) = (if k' = k then (k, v) # rest else (k', v') # dict_set k v rest)"

fun group_by_label :: "nat \<Rightarrow> nat list \<Rightarrow> (nat \<times> nat list) list \<Rightarrow> (nat \<times> nat list) list" where
  "group_by_label i [] clusters = clusters"
| "group_by_label i (label # labels) clusters =
     group_by_label (Suc i) labels
       (case map_of clusters label of
          None \<Rightarrow> dict_set label [i] clusters
        | Some ticket_indices \<Rightarrow> dict_set label (ticket_indices @ [i]) clusters)"

text \<open>Decimal formatting of a number in an f-string.\<close>

fun str_nat :: "nat \<Rightarrow> string" where
  "str_nat n = (if n < 10 then [char_of (48 + n)] else str_nat (n div 10) @ [char_of (48 + n mod 10)])"

definition str_int :: "int \<Rightarrow> string" where
  "str_int i = (if i < 0 then CHR ''-'' # str_nat (nat (- i)) else str_nat (nat i))"

text \<open>
  \<^verbatim>\<open>_generate_cluster_names\<close> (lines 168-195). \<open>sample_of\<close> is the list comprehension
  \<^verbatim>\<open>[tickets[i] for i in ...]\<close>, which raises on an index out of range; it stands outside
  the \<^verbatim>\<open>try\<close>, whose handler replaces a failed naming request by the generic name.
\<close>

definition sample_of :: "string list \<Rightarrow> nat list \<Rightarrow> py_error + string list" where
  "sample_of tickets idxs =
     (if list_all (\<lambda>i. i < length tickets) idxs then Inr (map (\<lambda>i. tickets ! i) idxs) else Inl IndexError)"

fun generate_cluster_names_loop ::
  "collaborators \<Rightarrow> string list \<Rightarrow> (nat \<times> nat list) list \<Rightarrow> (string \<times> nat list) list
     \<Rightarrow> py_error + (string \<times> nat list) list" where
  "generate_cluster_names_loop c tickets [] named_clusters = Inr named_clusters"
| "generate_cluster_names_loop c tickets ((cluster_id, ticket_indices) # rest) named_clusters =
     (case sample_of tickets (take 5 ticket_indices) of
        Inl e \<Rightarrow> Inl e
      | Inr sample_tickets \<Rightarrow>
          (case ask_openai_for_cluster_name c sample_tickets of
             Inr cluster_name \<Rightarrow>
               generate_cluster_names_loop c tickets rest (dict_set cluster_name ticket_indices named_clusters)
           | Inl e \<Rightarrow>
               generate_cluster_names_loop c tickets rest
                 (dict_set (''Issue Category '' @ str_int (int cluster_id + 1)) ticket_indices named_clusters)))"

definition generate_cluster_names ::
  "collaborators \<Rightarrow> string list \<Rightarrow> (nat \<times> nat list) list \<Rightarrow> py_error + (string \<times> nat list) list" where
  "generate_cluster_names c tickets clusters = generate_cluster_names_loop c tickets clusters []"

text \<open>
  \<^verbatim>\<open>_generate_rule_based_names\<close> (lines 272-320): the keyword table, the substring test
  \<^verbatim>\<open>keyword in cluster_text\<close>, the score of a category, the search for the first category
  with the highest score, and the loop that appends a counter until the name is new.
\<close>

definition category_keywords :: "(string \<times> string list) list" where
  "category_keywords =
     [(''Network Issues'', [''vpn'', ''connection'', ''network'', ''internet'', ''wifi'', ''ethernet'', ''dns'']),
      (''Authentication Problems'', [''password'', ''login'', ''access'', ''account'', ''authentication'', ''credentials'']),
      (''Email Issues'', [''outlook'', ''email'', ''mail'', ''exchange'', ''smtp'', ''inbox'']),
      (''Hardware Problems'', [''printer'', ''monitor'', ''keyboard'', ''mouse'', ''hardware'', ''device'']),
      (''Software Issues'', [''application'', ''software'', ''program'', ''install'', ''update'', ''crash'']),
      (''Phone Issues'', [''phone'', ''voip'', ''call'', ''dial'', ''telephone'', ''extension'']),
      (''Security Issues'', [''virus'', ''malware'', ''security'', ''firewall'', ''antivirus'', ''threat'']),
      (''File Access'', [''file'', ''folder'', ''share'', ''drive'', ''storage'', ''permission''])]"

fun starts_with :: "string \<Rightarrow> string \<Rightarrow> bool" where
  "starts_with [] text = True"
| "starts_with (k # ks) [] = False"
| "starts_with (k # ks) (c # cs) = (k = c \<and> starts_with ks cs)"

fun contains :: "string \<Rightarrow> string \<Rightarrow> bool" where
  "contains keyword [] = (keyword = [])"
| "contains keyword (c # cs) = (starts_with keyword (c # cs) \<or> contains keyword cs)"

definition keyword_score :: "string list \<Rightarrow> string \<Rightarrow> nat" where
  "keyword_score keywords cluster_text = length (filter (\<lambda>keyword. contains keyword cluster_text) keywords)"

fun best_match :: "(string \<times> string list) list \<Rightarrow> string \<Rightarrow> string \<times> nat \<Rightarrow> string \<times> nat" where
  "best_match [] cluster_text best = best"
| "best_match ((category, keywords) # rest) cluster_text (best_category, best_score) =
     (let score = keyword_score keywords cluster_text
      in if best_score < score then best_match rest cluster_text (category, score)
         else best_match rest cluster_text (best_category, best_score))"

text \<open>The length of the longest name, which bounds the counter of the renaming loop.\<close>

fun longest :: "string list \<Rightarrow> nat" where
  "longest [] = 0"
| "longest (name # names) = max (length name) (longest names)"

function unique_name :: "string \<Rightarrow> string list \<Rightarrow> string \<Rightarrow> nat \<Rightarrow> string" where
  "unique_name original_name names best_category counter =
     (if best_category \<in> set names
      then unique_name original_name names (original_name @ '' '' @ str_nat counter) (Suc counter)
      else best_category)"
  by pat_completeness auto

termination unique_name
proof (relation "measure (\<lambda>(original_name, names, best_category, counter).
          2 * (10 ^ longest names - counter) + (if best_category \<in> set names then 1 else 0))", goal_cases)
  case 1
  show ?case by simp
next
  case (2 original_name names best_category counter)
  let ?next = "original_name @ '' '' @ str_nat counter"
  have str_nat_bound: "n < 10 ^ length (str_nat n)" for n
  proof (induction n rule: str_nat.induct)
    case (1 n)
    show ?case
    proof (cases "n < 10")
      case True
      then show ?thesis by (subst str_nat.simps) simp
    next
      case False
      with 1 have "n div 10 < 10 ^ length (str_nat (n div 10))" by simp
      then have "n < 10 * 10 ^ length (str_nat (n div 10))" by linarith
      with False show ?thesis by (subst str_nat.simps) simp
    qed
  qed
  have longest_ge: "name \<in> set ns \<Longrightarrow> length name \<le> longest ns" for name ns
    by (induction ns) auto
  have bound: "?next \<in> set names \<Longrightarrow> counter < 10 ^ longest names"
  proof -
    assume "?next \<in> set names"
    then have "length ?next \<le> longest names" by (rule longest_ge)
    then have "length (str_nat counter) \<le> longest names" by simp
    then have "(10::nat) ^ length (str_nat counter) \<le> 10 ^ longest names"
      by (intro power_increasing) auto
    with str_nat_bound[of counter] show ?thesis by linarith
  qed
  have "2 * (10 ^ longest names - Suc counter) + (if ?next \<in> set names then 1 else 0)
      < 2 * (10 ^ longest names - counter) + (1::nat)"
  proof (cases "?next \<in> set names")
    case True
    from bound[OF True] show ?thesis using True by simp
  next
    case False
    then show ?thesis by simp
  qed
  with 2 show ?case by simp
qed

definition rule_based_name :: "string list \<Rightarrow> string list \<Rightarrow> nat list \<Rightarrow> py_error + string" where
  "rule_based_name tickets names ticket_indices =
     (case sample_of tickets ticket_indices of
        Inl e \<Rightarrow> Inl e
      | Inr selected \<Rightarrow>
          (let cluster_tickets = map lower selected;
               cluster_text = join_sp cluster_tickets;
               best_category = fst (best_match category_keywords cluster_text (''General Issues'', 0));
               original_name = best_category
           in Inr (unique_name original_name names best_category 1)))"

fun generate_rule_based_names_loop ::
  "string list \<Rightarrow> (nat \<times> nat list) list \<Rightarrow> (string \<times> nat list) list \<Rightarrow> py_error + (string \<times> nat list) list" where
  "generate_rule_based_names_loop tickets [] named_clusters = Inr named_clusters"
| "generate_rule_based_names_loop tickets ((cluster_id, ticket_indices) # rest) named_clusters =
     (case rule_based_name tickets (map fst named_clusters) ticket_indices of
        Inl e \<Rightarrow> Inl e
      | Inr best_category \<Rightarrow>
          generate_rule_based_names_loop tickets rest (dict_set best_category ticket_indices named_clusters))"

definition generate_rule_based_names ::
  "string list \<Rightarrow> (nat \<times> nat list) list \<Rightarrow> py_error + (string \<times> nat list) list" where
  "generate_rule_based_names tickets clusters = generate_rule_based_names_loop tickets clusters []"

text \<open>\<^verbatim>\<open>_cluster_with_sklearn\<close> (lines 234-270).\<close>

definition cluster_with_sklearn :: "collaborators \<Rightarrow> string list \<Rightarrow> py_error + (string \<times> nat list) list" where
  "cluster_with_sklearn c tickets =
     (let processed_tickets = map preprocess_ticket tickets in
      case tfidf_fit_transform c processed_tickets of
        Inl e \<Rightarrow> Inl e
      | Inr tfidf_matrix \<Rightarrow>
          (let n_clusters = determine_cluster_count (int (length tickets)) in
           case kmeans_fit_predict c n_clusters tfidf_matrix of
             Inl e \<Rightarrow> Inl e
           | Inr cluster_labels \<Rightarrow>
               generate_rule_based_names tickets (group_by_label 0 cluster_labels [])))"

text \<open>
  \<^verbatim>\<open>get_cluster_representatives\<close> (vector_store.py, lines 143-183); the empty dictionary
  it returns on failure is \<open>None\<close>. A similarity whose denominator is zero is NaN in NumPy,
  here \<open>None\<close>, and \<^verbatim>\<open>np.argmax\<close> returns the position of the first NaN if there is one.
\<close>

record cluster_stats =
  centroid :: vec
  representative_ticket_idx :: nat
  cohesion_score :: real
  size :: nat

definition take_rows :: "vec list \<Rightarrow> nat list \<Rightarrow> py_error + vec list" where
  "take_rows embeddings idxs =
     (if list_all (\<lambda>i. i < length embeddings) idxs then Inr (map (\<lambda>i. embeddings ! i) idxs) else Inl IndexError)"

definition mean_axis0 :: "vec list \<Rightarrow> vec" where
  "mean_axis0 rows = map (\<lambda>j. mean (map (\<lambda>row. row ! j) rows)) [0..<length (hd rows)]"

definition centroid_similarities :: "vec list \<Rightarrow> vec \<Rightarrow> real option list" where
  "centroid_similarities rows c =
     map (\<lambda>row. let den = f64 (l2_norm row * l2_norm c)
                in if den = 0 then None else Some (f64 (dot row c / den))) rows"

fun first_index :: "('a \<Rightarrow> bool) \<Rightarrow> 'a list \<Rightarrow> nat option" where
  "first_index P [] = None"
| "first_index P (x # xs) = (if P x then Some 0 else map_option Suc (first_index P xs))"

definition argmax :: "real option list \<Rightarrow> nat" where
  "argmax sims =
     (case first_index (\<lambda>s. s = None) sims of
        Some i \<Rightarrow> i
      | None \<Rightarrow>
          (let vals = map the sims; best = fold max vals (hd vals)
           in case first_index (\<lambda>v. v = best) vals of Some i \<Rightarrow> i | None \<Rightarrow> 0))"

definition get_cluster_representatives :: "nat list \<Rightarrow> vec list \<Rightarrow> cluster_stats option" where
  "get_cluster_representatives cluster_indices embeddings =
     (if cluster_indices = [] then None
      else case take_rows embeddings cluster_indices of
        Inl e \<Rightarrow> None
      | Inr cluster_embeddings \<Rightarrow>
          (let c = mean_axis0 cluster_embeddings;
               similarities = centroid_similarities cluster_embeddings c;
               most_representative_idx = cluster_indices ! argmax similarities;
               cohesion = calculate_cluster_cohesion cluster_embeddings
           in Some \<lparr>centroid = c, representative_ticket_idx = most_representative_idx,
                     cohesion_score = cohesion, size = length cluster_indices\<rparr>))"

text \<open>
  \<^verbatim>\<open>_enhance_clusters_with_similarity\<close> (lines 346-407). The copy of line 360 is shallow,
  so \<^verbatim>\<open>clusters\<close> and \<^verbatim>\<open>enhanced_clusters\<close> share their lists: one dictionary state is
  passed along, read where the code reads either. \<open>consider_similar\<close> is the body of the
  inner loop (lines 382-398), \<open>refine_cluster\<close> the body of the outer loop, and the handler
  returns the state as it is when the exception is raised. The literals \<^verbatim>\<open>0.8\<close> and
  \<^verbatim>\<open>0.85\<close> are the binary64 numbers nearest to 8/10 and 85/100.
\<close>

definition py_eq_nat :: "pyval \<Rightarrow> nat \<Rightarrow> bool" where
  "py_eq_nat v n = (case v of PInt i \<Rightarrow> i = int n | PFloat x \<Rightarrow> x = real n | PStr s \<Rightarrow> False)"

definition py_in :: "pyval \<Rightarrow> nat list \<Rightarrow> bool" where
  "py_in v xs = list_ex (py_eq_nat v) xs"

definition py_gt :: "pyval \<Rightarrow> real \<Rightarrow> bool" where
  "py_gt v x = (case v of PInt i \<Rightarrow> x < real_of_int i | PFloat y \<Rightarrow> x < y | PStr s \<Rightarrow> False)"

fun find_current_cluster :: "pyval \<Rightarrow> (nat \<times> nat list) list \<Rightarrow> nat option" where
  "find_current_cluster ticket_idx [] = None"
| "find_current_cluster ticket_idx ((cid, indices) # rest) =
     (if py_in ticket_idx indices then Some cid else find_current_cluster ticket_idx rest)"

fun py_remove :: "pyval \<Rightarrow> nat list \<Rightarrow> nat list" where
  "py_remove v [] = []"
| "py_remove v (x # xs) = (if py_eq_nat v x then xs else x # py_remove v xs)"

definition consider_similar ::
  "nat \<Rightarrow> pydict \<Rightarrow> (nat \<times> nat list) list \<Rightarrow> py_error + (nat \<times> nat list) list" where
  "consider_similar cluster_id similar_ticket enhanced_clusters =
     (case similar_ticket ''ticket_index'' of
        None \<Rightarrow> Inl KeyError
      | Some ticket_idx \<Rightarrow>
     (case similar_ticket ''similarity_score'' of
        None \<Rightarrow> Inl KeyError
      | Some score \<Rightarrow>
     (case map_of enhanced_clusters cluster_id of
        None \<Rightarrow> Inl KeyError
      | Some ticket_indices \<Rightarrow>
          if py_gt score (f64 (85 / 100)) \<and> \<not> py_in ticket_idx ticket_indices then
            (case find_current_cluster ticket_idx enhanced_clusters of
               None \<Rightarrow> Inr enhanced_clusters
             | Some current_cluster \<Rightarrow>
                 (case map_of enhanced_clusters current_cluster of
                    None \<Rightarrow> Inl KeyError
                  | Some current_indices \<Rightarrow>
                      if length current_indices \<le> 2 then
                        (case find (py_eq_nat ticket_idx) current_indices of
                           None \<Rightarrow> Inr enhanced_clusters
                         | Some moved \<Rightarrow>
                             (let removed = dict_set current_cluster (py_remove ticket_idx current_indices)
                                              enhanced_clusters
                              in Inr (dict_set cluster_id (ticket_indices @ [moved]) removed)))
                      else Inr enhanced_clusters))
          else Inr enhanced_clusters)))"

fun move_similar ::
  "nat \<Rightarrow> pydict list \<Rightarrow> (nat \<times> nat list) list \<Rightarrow> (py_error + unit) \<times> (nat \<times> nat list) list" where
  "move_similar cluster_id [] enhanced_clusters = (Inr (), enhanced_clusters)"
| "move_similar cluster_id (similar_ticket # rest) enhanced_clusters =
     (case consider_similar cluster_id similar_ticket enhanced_clusters of
        Inl e \<Rightarrow> (Inl e, enhanced_clusters)
      | Inr enhanced_clusters' \<Rightarrow> move_similar cluster_id rest enhanced_clusters')"

definition refine_cluster ::
  "vector_store \<Rightarrow> string list \<Rightarrow> vec list \<Rightarrow> nat \<Rightarrow> (nat \<times> nat list) list
     \<Rightarrow> (py_error + unit) \<times> (nat \<times> nat list) list" where
  "refine_cluster vs tickets embeddings cluster_id enhanced_clusters =
     (case map_of enhanced_clusters cluster_id of
        None \<Rightarrow> (Inl KeyError, enhanced_clusters)
      | Some ticket_indices \<Rightarrow>
          if length ticket_indices < 2 then (Inr (), enhanced_clusters)
          else
            (case get_cluster_representatives ticket_indices embeddings of
               None \<Rightarrow> (Inr (), enhanced_clusters)
             | Some stats \<Rightarrow>
                 (case py_index embeddings (int (representative_ticket_idx stats)) of
                    Inl e \<Rightarrow> (Inl e, enhanced_clusters)
                  | Inr representative_embedding \<Rightarrow>
                      (case search_similar_tickets vs representative_embedding
                              (min 10 (int (length tickets))) (f64 (8 / 10)) of
                         Inl e \<Rightarrow> (Inl e, enhanced_clusters)
                       | Inr similar_tickets \<Rightarrow> move_similar cluster_id similar_tickets enhanced_clusters))))"

fun refine_clusters ::
  "vector_store \<Rightarrow> string list \<Rightarrow> vec list \<Rightarrow> nat list \<Rightarrow> (nat \<times> nat list) list
     \<Rightarrow> (py_error + unit) \<times> (nat \<times> nat list) list" where
  "refine_clusters vs tickets embeddings [] enhanced_clusters = (Inr (), enhanced_clusters)"
| "refine_clusters vs tickets embeddings (cluster_id # rest) enhanced_clusters =
     (case refine_cluster vs tickets embeddings cluster_id enhanced_clusters of
        (Inl e, enhanced_clusters') \<Rightarrow> (Inl e, enhanced_clusters')
      | (Inr u, enhanced_clusters') \<Rightarrow> refine_clusters vs tickets embeddings rest enhanced_clusters')"

definition enhance_clusters_with_similarity ::
  "vector_store \<Rightarrow> string list \<Rightarrow> (nat \<times> nat list) list \<Rightarrow> vec list \<Rightarrow> (nat \<times> nat list) list" where
  "enhance_clusters_with_similarity vs tickets clusters embeddings =
     (case refine_clusters vs tickets embeddings (map fst clusters) clusters of
        (Inl e, clusters') \<Rightarrow> clusters'
      | (Inr u, enhanced_clusters) \<Rightarrow> filter (\<lambda>(cid, indices). indices \<noteq> []) enhanced_clusters)"

text \<open>\<^verbatim>\<open>_cluster_with_openai\<close> (lines 95-138); \<open>ticket_metadata\<close> is the list of line 112.\<close>

definition ticket_metadata :: "string list \<Rightarrow> pydict list" where
  "ticket_metadata tickets =
     map (\<lambda>i. [''ticket_index'' \<mapsto> PInt (int i), ''description'' \<mapsto> PStr (tickets ! i)]) [0..<length tickets]"

definition cluster_with_openai ::
  "collaborators \<Rightarrow> engine \<Rightarrow> string list \<Rightarrow> (py_error + (string \<times> nat list) list) \<times> engine" where
  "cluster_with_openai c self tickets =
     (case generate_embeddings c tickets of
        Inl e \<Rightarrow> (Inl e, self)
      | Inr embeddings \<Rightarrow>
          (let self1 = (case vector_store self of
                          None \<Rightarrow> self
                        | Some vs \<Rightarrow>
                            self\<lparr>vector_store := Some (snd (store_embeddings vs embeddings (ticket_metadata tickets)))\<rparr>);
               n_clusters = determine_cluster_count (int (length tickets))
           in case kmeans_fit_predict c n_clusters embeddings of
                Inl e \<Rightarrow> (Inl e, self1)
              | Inr cluster_labels \<Rightarrow>
                  (let clusters = group_by_label 0 cluster_labels [];
                       clusters = (case vector_store self1 of
                                     None \<Rightarrow> clusters
                                   | Some vs \<Rightarrow> enhance_clusters_with_similarity vs tickets clusters embeddings)
                   in (generate_cluster_names c tickets clusters, self1))))"

text \<open>\<^verbatim>\<open>cluster_tickets\<close> (lines 70-93).\<close>

definition cluster_tickets ::
  "collaborators \<Rightarrow> engine \<Rightarrow> string list \<Rightarrow> (py_error + (string \<times> nat list) list) \<times> engine" where
  "cluster_tickets c self tickets =
     (if length tickets = 1 then (Inr [(''General Issues'', [0])], self)
      else
        (case (if use_openai self then cluster_with_openai c self tickets
               else (cluster_with_sklearn c tickets, self)) of
           (Inr clusters, self') \<Rightarrow> (Inr clusters, self')
         | (Inl e, self') \<Rightarrow> (Inr [(''General Issues'', [0..<length tickets])], self')))"

text \<open>\<^verbatim>\<open>find_similar_tickets\<close> (lines 409-437).\<close>

definition find_similar_tickets :: "collaborators \<Rightarrow> engine \<Rightarrow> string \<Rightarrow> int \<Rightarrow> py_error + pydict list" where
  "find_similar_tickets c self query_ticket k =
     (case vector_store self of
        None \<Rightarrow> Inr []
      | Some vs \<Rightarrow>
          if \<not> use_openai self then Inr []
          else
            (case (case generate_embeddings c [query_ticket] of
                     Inl e \<Rightarrow> Inl e
                   | Inr embeddings \<Rightarrow>
                       (case py_index embeddings 0 of
                          Inl e \<Rightarrow> Inl e
                        | Inr query_embedding \<Rightarrow> search_similar_tickets vs query_embedding k (5 / 10))) of
               Inl e \<Rightarrow> Inr []
             | Inr similar_tickets \<Rightarrow> Inr similar_tickets))"

text \<open>
  Example inputs: services in the manner of the mocks of the repository's test
  \<^verbatim>\<open>test_openai_integration_success\<close>, whose naming mock answers \<^verbatim>\<open>Network Issues\<close> to every
  request; the same services with an embedding provider that raises; three tickets.
\<close>

definition mock_collaborators :: collaborators where
  "mock_collaborators =
     \<lparr>embeddings_create = (\<lambda>texts. Inr (map (\<lambda>t. [1, 0]) texts)),
      ask_openai_for_cluster_name = (\<lambda>sample. Inr ''Network Issues''),
      tfidf_fit_transform = (\<lambda>texts. Inr (map (\<lambda>t. [1, 0]) texts)),
      kmeans_fit_predict = (\<lambda>k rows. Inr (map (\<lambda>i. if i = 0 then 0 else 1) [0..<length rows]))\<rparr>"

definition failing_provider :: collaborators where
  "failing_provider = mock_collaborators\<lparr>embeddings_create := (\<lambda>texts. Inl ProviderError)\<rparr>"

definition example_tickets :: "string list" where
  "example_tickets = [''VPN connection timeout'', ''Outlook email not syncing'', ''Email inbox full'']"

section \<open>Properties of the Text Normalizer\<close>

lemma is_space_sp [simp]: "is_space CHR '' ''"
  by (simp add: is_space_def code_def)

lemma lower_char_idem: "lower_char (lower_char c) = lower_char c"
  unfolding lower_char_def code_def Let_def
  by (auto simp: of_char_of)

lemma split_acc_space_prefix: "\<forall>c\<in>set a. is_space c \<Longrightarrow> split_acc [] (a @ t) = split_acc [] t"
  by (induction a) auto

lemma split_acc_spaces: "\<forall>c\<in>set a. is_space c \<Longrightarrow> split_acc w a = (if w = [] then [] else [w])"
  by (induction a arbitrary: w) auto

lemma split_acc_space_suffix: "\<forall>c\<in>set a. is_space c \<Longrightarrow> split_acc w (t @ a) = split_acc w t"
  by (induction t arbitrary: w) (auto simp: split_acc_spaces)

lemma split_acc_collapse: "(b \<longrightarrow> w = []) \<Longrightarrow> split_acc w (collapse_run b cs) = split_acc w cs"
  by (induction cs arbitrary: b w) auto

lemma split_acc_word: "\<forall>c\<in>set v. \<not> is_space c \<Longrightarrow> split_acc w (v @ cs) = split_acc (w @ v) cs"
  by (induction v arbitrary: w) auto

lemma split_acc_join: "\<forall>w\<in>set ws. token w \<Longrightarrow> split_acc [] (join_sp ws) = ws"
proof (induction ws rule: join_sp.induct)
  case 1 show ?case by simp
next
  case (2 w)
  then have "\<forall>c\<in>set w. \<not> is_space c" "w \<noteq> []" by (auto simp: token_def)
  then show ?case using split_acc_word[of w "[]" "[]"] by simp
next
  case (3 w v ws)
  then have "\<forall>c\<in>set w. \<not> is_space c" "w \<noteq> []" by (auto simp: token_def)
  moreover have "split_acc [] (join_sp (v # ws)) = v # ws" using 3 by simp
  ultimately show ?case using split_acc_word[of w "[]" "CHR '' '' # join_sp (v # ws)"] by simp
qed

lemma split_acc_tokens:
  "v \<in> set (split_acc w cs) \<Longrightarrow> \<forall>c\<in>set w. \<not> is_space c
     \<Longrightarrow> token v \<and> set v \<subseteq> set w \<union> set cs"
proof (induction cs arbitrary: w)
  case Nil
  then show ?case by (auto simp: token_def split: if_splits)
next
  case (Cons a cs)
  show ?case
  proof (cases "is_space a")
    case True
    show ?thesis
    proof (cases "v = w \<and> w \<noteq> []")
      case True
      then show ?thesis using Cons.prems by (auto simp: token_def)
    next
      case False
      with True Cons.prems have "v \<in> set (split_acc [] cs)" by (auto split: if_splits)
      from Cons.IH[OF this] show ?thesis by auto
    qed
  next
    case False
    with Cons.prems have "v \<in> set (split_acc (w @ [a]) cs)" by simp
    moreover have "\<forall>c\<in>set (w @ [a]). \<not> is_space c" using False Cons.prems by auto
    ultimately have "token v \<and> set v \<subseteq> set (w @ [a]) \<union> set cs" by (rule Cons.IH)
    then show ?thesis by auto
  qed
qed


lemma strip_decomp:
  "\<exists>pre post. l = pre @ strip l @ post \<and> (\<forall>c\<in>set pre. is_space c) \<and> (\<forall>c\<in>set post. is_space c)"
proof -
  define t where "t = dropWhile is_space l"
  have "rev (takeWhile is_space (rev t) @ dropWhile is_space (rev t)) = rev (rev t)"
    by (simp only: takeWhile_dropWhile_id)
  then have "rev (dropWhile is_space (rev t)) @ rev (takeWhile is_space (rev t)) = t"
    by (simp only: rev_append rev_rev_ident)
  then have t: "t = strip l @ rev (takeWhile is_space (rev t))"
    by (simp add: strip_def t_def)
  have l: "l = takeWhile is_space l @ t" by (simp add: t_def)
  have p1: "\<forall>c\<in>set (takeWhile is_space l). is_space c" by (auto dest: set_takeWhileD)
  have p2: "\<forall>c\<in>set (rev (takeWhile is_space (rev t))). is_space c" by (auto dest: set_takeWhileD)
  from l t have "l = takeWhile is_space l @ strip l @ rev (takeWhile is_space (rev t))" by simp
  with p1 p2 show ?thesis by blast
qed

lemma sub_special_spaces: "\<forall>c\<in>set a. is_space c \<Longrightarrow> sub_special a = a"
  by (induction a) (auto simp: sub_special_def)

lemma sub_special_append: "sub_special (a @ b) = sub_special a @ sub_special b"
  by (simp add: sub_special_def)

lemma split_sub_strip: "split_ws (sub_special (strip l)) = split_ws (sub_special l)"
proof -
  obtain pre post where d: "l = pre @ strip l @ post"
    and pre: "\<forall>c\<in>set pre. is_space c" and post: "\<forall>c\<in>set post. is_space c"
    using strip_decomp by blast
  have "sub_special l = sub_special (pre @ strip l @ post)" using d by simp
  then have "sub_special l = pre @ sub_special (strip l) @ post"
    by (simp add: sub_special_append sub_special_spaces pre post)
  then have "split_ws (sub_special l) = split_acc [] (pre @ sub_special (strip l) @ post)"
    by (simp add: split_ws_def)
  also have "\<dots> = split_acc [] (sub_special (strip l) @ post)"
    using pre by (rule split_acc_space_prefix)
  also have "\<dots> = split_acc [] (sub_special (strip l))"
    using post by (rule split_acc_space_suffix)
  finally show ?thesis by (simp add: split_ws_def)
qed

lemma split_collapse: "split_ws (collapse_ws s) = split_ws s"
  by (simp add: split_ws_def collapse_ws_def split_acc_collapse)

lemma preprocess_ticket_tokens:
  "preprocess_ticket x = join_sp (filter (\<lambda>w. 2 \<le> length w) (split_ws (sub_special (lower x))))"
  by (simp add: preprocess_ticket_def Let_def split_collapse split_sub_strip)

lemma strip_id: "s = [] \<or> (\<not> is_space (hd s) \<and> \<not> is_space (last s)) \<Longrightarrow> strip s = s"
proof (cases "s = []")
  case True then show ?thesis by (simp add: strip_def)
next
  case False
  assume "s = [] \<or> (\<not> is_space (hd s) \<and> \<not> is_space (last s))"
  with False have h: "\<not> is_space (hd s)" and l: "\<not> is_space (last s)" by auto
  from False h have 1: "dropWhile is_space s = s" by (cases s) auto
  from False l have 2: "dropWhile is_space (rev s) = rev s" by (cases "rev s") (auto simp: last_rev hd_rev)
  show ?thesis by (simp add: strip_def 1 2)
qed

lemma join_sp_ends:
  "\<forall>w\<in>set ws. token w \<Longrightarrow> ws \<noteq> [] \<Longrightarrow>
     join_sp ws \<noteq> [] \<and> \<not> is_space (hd (join_sp ws)) \<and> \<not> is_space (last (join_sp ws))"
  by (induction ws rule: join_sp.induct) (auto simp: token_def)

lemma strip_join: "\<forall>w\<in>set ws. token w \<Longrightarrow> strip (join_sp ws) = join_sp ws"
proof (cases "ws = []")
  case True then show ?thesis by (simp add: strip_def)
next
  case False
  assume "\<forall>w\<in>set ws. token w"
  from join_sp_ends[OF this False] show ?thesis by (intro strip_id) simp
qed

lemma set_join_sp: "set (join_sp ws) \<subseteq> \<Union> (set ` set ws) \<union> {CHR '' ''}"
  by (induction ws rule: join_sp.induct) auto


lemma sub_special_alt:
  "map (\<lambda>c. if is_word c \<or> is_space c then c else CHR '' '') s = sub_special s"
  by (simp add: sub_special_def) 

lemma split_ws_tokens: "w \<in> set (split_ws s) \<Longrightarrow> token w \<and> set w \<subseteq> set s"
  using split_acc_tokens[of w "[]" s] by (simp add: split_ws_def)

text \<open>
  Claim C5, as amended. For every text the normalizer lower-cases it, replaces every character
  that is neither a word character (alphanumeric or underscore) nor whitespace by a space,
  collapses runs of whitespace to one space, drops every token shorter than two characters
  and trims. It is a total function, so it fails on no input.
\<close>

theorem preprocess_ticket_refines_amended: "preprocess_ticket x = normalize_amended x"
proof -
  let ?ws = "filter (\<lambda>w. 2 \<le> length w) (split_ws (sub_special (lower x)))"
  have "\<forall>w\<in>set ?ws. token w" using split_ws_tokens by auto
  then have "strip (join_sp ?ws) = join_sp ?ws" by (rule strip_join)
  then show ?thesis
    by (simp add: preprocess_ticket_tokens normalize_amended_def sub_special_alt split_collapse)
qed

text \<open>
  Claim C5, as stated, fails on the underscore: it is neither alphanumeric nor whitespace, yet
  the code keeps it, so \<^verbatim>\<open>a_b\<close> stays one token of three characters where the stated
  behaviour leaves two one-character tokens, both dropped.
\<close>

theorem preprocess_ticket_underscore_counterexample:
  "preprocess_ticket ''a_b'' = ''a_b'' \<and> normalize_claimed ''a_b'' = [] \<and> \<not> is_alnum CHR ''_'' \<and> \<not> is_space CHR ''_''"
  by code_simp

lemma preprocess_ticket_fixed:
  assumes "\<forall>w\<in>set ws. token w \<and> 2 \<le> length w \<and> (\<forall>c\<in>set w. lower_char c = c \<and> is_word c)"
  shows "preprocess_ticket (join_sp ws) = join_sp ws"
proof -
  have lowsp: "lower_char CHR '' '' = CHR '' ''" by code_simp
  have chars: "\<forall>c\<in>set (join_sp ws). lower_char c = c \<and> (is_word c \<or> is_space c)"
    using set_join_sp[of ws] assms lowsp by auto
  have 1: "lower (join_sp ws) = join_sp ws"
    unfolding lower_def using chars by (simp add: map_idI)
  have 2: "sub_special (join_sp ws) = join_sp ws"
    unfolding sub_special_def using chars by (auto intro!: map_idI)
  have 3: "split_ws (join_sp ws) = ws"
    unfolding split_ws_def using assms by (intro split_acc_join) simp
  have 4: "filter (\<lambda>w. 2 \<le> length w) ws = ws" using assms by (simp add: filter_id_conv)
  show ?thesis by (simp add: preprocess_ticket_tokens 1 2 3 4)
qed

text \<open>
  Claim C9. The normalizer is idempotent: normalizing a normalized text changes nothing.
\<close>

theorem preprocess_ticket_idempotent:
  "preprocess_ticket (preprocess_ticket x) = preprocess_ticket x"
proof -
  let ?s = "sub_special (lower x)"
  let ?ws = "filter (\<lambda>w. 2 \<le> length w) (split_ws ?s)"
  have s: "\<forall>c\<in>set ?s. lower_char c = c \<and> (is_word c \<or> is_space c)"
  proof
    fix c assume "c \<in> set ?s"
    then obtain d where d: "d \<in> set x"
        and c: "c = (if \<not> is_word (lower_char d) \<and> \<not> is_space (lower_char d) then CHR '' '' else lower_char d)"
      by (auto simp: sub_special_def lower_def)
    have "lower_char CHR '' '' = CHR '' ''" by code_simp
    with c show "lower_char c = c \<and> (is_word c \<or> is_space c)"
      by (auto simp: lower_char_idem)
  qed
  have "\<forall>w\<in>set ?ws. token w \<and> 2 \<le> length w \<and> (\<forall>c\<in>set w. lower_char c = c \<and> is_word c)"
  proof
    fix w assume w: "w \<in> set ?ws"
    then have "w \<in> set (split_ws ?s)" and len: "2 \<le> length w" by auto
    from split_ws_tokens[OF this(1)] have t: "token w" and sub: "set w \<subseteq> set ?s" by auto
    from t sub s have "\<forall>c\<in>set w. lower_char c = c \<and> is_word c" by (auto simp: token_def)
    with t len show "token w \<and> 2 \<le> length w \<and> (\<forall>c\<in>set w. lower_char c = c \<and> is_word c)" by simp
  qed
  then have "preprocess_ticket (join_sp ?ws) = join_sp ?ws" by (rule preprocess_ticket_fixed)
  then show ?thesis by (simp add: preprocess_ticket_tokens)
qed

section \<open>Properties of the Cluster Count Heuristic\<close>

text \<open>
  Claim C6. For every ticket count \<open>n \<ge> 1\<close> the heuristic returns 1 for \<open>n \<le> 2\<close>, 2 for
  \<open>3 \<le> n \<le> 5\<close>, 3 for \<open>6 \<le> n \<le> 10\<close>, \<open>min 4 (n div 3)\<close> for \<open>11 \<le> n \<le> 20\<close>,
  \<open>min 6 (n div 5)\<close> for \<open>21 \<le> n \<le> 50\<close> and \<open>min 10 (n div 8)\<close> for \<open>n > 50\<close>; the result
  always lies between 1 and 10. The function is a total HOL function of its argument alone,
  hence pure and deterministic.
\<close>

theorem determine_cluster_count_policy:
  assumes "1 \<le> n"
  shows "(n \<le> 2 \<longrightarrow> determine_cluster_count n = 1)
       \<and> (3 \<le> n \<and> n \<le> 5 \<longrightarrow> determine_cluster_count n = 2)
       \<and> (6 \<le> n \<and> n \<le> 10 \<longrightarrow> determine_cluster_count n = 3)
       \<and> (11 \<le> n \<and> n \<le> 20 \<longrightarrow> determine_cluster_count n = min 4 (n div 3))
       \<and> (21 \<le> n \<and> n \<le> 50 \<longrightarrow> determine_cluster_count n = min 6 (n div 5))
       \<and> (50 < n \<longrightarrow> determine_cluster_count n = min 10 (n div 8))
       \<and> 1 \<le> determine_cluster_count n \<and> determine_cluster_count n \<le> 10"
proof -
  have lo: "1 \<le> determine_cluster_count n"
    using assms unfolding determine_cluster_count_def by (auto simp: min_def)
  have hi: "determine_cluster_count n \<le> 10"
    unfolding determine_cluster_count_def by (auto simp: min_def)
  have tab: "(n \<le> 2 \<longrightarrow> determine_cluster_count n = 1)
       \<and> (3 \<le> n \<and> n \<le> 5 \<longrightarrow> determine_cluster_count n = 2)
       \<and> (6 \<le> n \<and> n \<le> 10 \<longrightarrow> determine_cluster_count n = 3)
       \<and> (11 \<le> n \<and> n \<le> 20 \<longrightarrow> determine_cluster_count n = min 4 (n div 3))
       \<and> (21 \<le> n \<and> n \<le> 50 \<longrightarrow> determine_cluster_count n = min 6 (n div 5))
       \<and> (50 < n \<longrightarrow> determine_cluster_count n = min 10 (n div 8))"
    unfolding determine_cluster_count_def by auto
  from tab lo hi show ?thesis by blast
qed

theorem determine_cluster_count_policy_witness:
  "(1::int) \<le> 17 \<and> determine_cluster_count 17 = 4 \<and> determine_cluster_count 17 = min 4 (17 div 3)"
  using determine_cluster_count_policy [of 17] by (simp add: determine_cluster_count_def)

section \<open>Properties of the Vector Similarity Store\<close>

subsection \<open>Rounding\<close>

lemma round_half_even_near:
  assumes "\<bar>y - of_int m\<bar> < 1 / 2"
  shows "round_half_even y = m"
proof -
  have "of_int m - 1 / 2 < y" "y < of_int m + 1 / 2" using assms by linarith+
  show ?thesis
  proof (cases "of_int m \<le> y")
    case True
    then have f: "\<lfloor>y\<rfloor> = m" using \<open>y < of_int m + 1 / 2\<close> by (intro floor_unique) auto
    then show ?thesis using \<open>y < of_int m + 1 / 2\<close> by (simp add: round_half_even_def Let_def)
  next
    case False
    then have f: "\<lfloor>y\<rfloor> = m - 1" using \<open>of_int m - 1 / 2 < y\<close> by (intro floor_unique) auto
    then show ?thesis using \<open>of_int m - 1 / 2 < y\<close> False by (simp add: round_half_even_def Let_def)
  qed
qed

lemma floor_log2:
  assumes "2 powr of_int e \<le> x" "x < 2 powr (of_int e + 1)"
  shows "\<lfloor>log 2 x\<rfloor> = e"
proof -
  have pos: "0 < x" using assms(1) powr_gt_zero[of 2 "of_int e"] by linarith
  have "of_int e \<le> log 2 x" using assms(1) pos by (simp add: le_log_iff)
  moreover have "log 2 x < of_int e + 1" using assms(2) pos by (simp add: log_less_iff)
  ultimately show ?thesis by (intro floor_unique) auto
qed

lemma fl_nearest:
  assumes r: "r = of_int m * 2 powr of_int k"
    and binade: "2 powr (of_int k + of_nat p - 1) \<le> \<bar>x\<bar>" "\<bar>x\<bar> < 2 powr (of_int k + of_nat p)"
    and near: "\<bar>x - r\<bar> < 2 powr of_int k / 2"
  shows "fl p x = r"
proof -
  have x0: "x \<noteq> 0" using binade(1) powr_gt_zero[of 2 "of_int k + of_nat p - 1"] by auto
  have e: "\<lfloor>log 2 \<bar>x\<bar>\<rfloor> = k + int p - 1"
    using binade by (intro floor_log2) (simp_all add: algebra_simps)
  have ulp: "2 powr (of_int (k + int p - 1) - of_nat p + 1) = 2 powr of_int k"
    by simp
  have pos: "0 < 2 powr (of_int k :: real)" by simp
  have "\<bar>x / 2 powr of_int k - of_int m\<bar> = \<bar>x - r\<bar> / 2 powr of_int k"
    unfolding r using pos by (simp add: field_simps abs_mult abs_divide)
  also have "\<dots> < 1 / 2" using near pos by (simp add: field_simps)
  finally have "round_half_even (x / 2 powr of_int k) = m" by (rule round_half_even_near)
  then show ?thesis using x0 by (simp add: fl_def e ulp r Let_def)
qed

lemma fl_near_frac:
  assumes "2 ^ (p - 1) \<le> x * 2 ^ j" "x * 2 ^ j < 2 ^ p" "\<bar>x * 2 ^ j - of_int m\<bar> < 1 / 2" "0 < p"
  shows "fl p x = of_int m / 2 ^ j"
proof (rule fl_nearest[where m=m and k="- int j"])
  have pw: "(2::real) powr of_int (- int j) = 1 / 2 ^ j"
    by (simp add: powr_minus powr_realpow field_simps)
  have pw': "(2::real) powr (- real j) = 1 / 2 ^ j"
    by (simp add: powr_minus powr_realpow field_simps)
  show "real_of_int m / 2 ^ j = real_of_int m * 2 powr real_of_int (- int j)" by (simp only: pw) simp
  have xpos: "0 < x"
  proof (rule ccontr)
    assume "\<not> 0 < x"
    then have "x * 2 ^ j \<le> 0" by (simp add: mult_le_0_iff)
    moreover have "(0::real) < 2 ^ (p - 1)" by simp
    ultimately show False using assms(1) by linarith
  qed
  have a: "(2::real) powr (of_int (- int j) + of_nat p - 1) = 2 ^ (p - 1) / 2 ^ j"
  proof -
    have "of_int (- int j) + of_nat p - 1 = real (p - 1) + real_of_int (- int j)"
      using assms(4) by (simp add: of_nat_diff)
    then have "(2::real) powr (of_int (- int j) + of_nat p - 1) = 2 powr real (p - 1) * 2 powr of_int (- int j)"
      by (simp only: powr_add)
    then show ?thesis by (simp add: pw' powr_realpow)
  qed
  have b: "(2::real) powr (of_int (- int j) + of_nat p) = 2 ^ p / 2 ^ j"
  proof -
    have "of_int (- int j) + of_nat p = real p + real_of_int (- int j)" by simp
    then have "(2::real) powr (of_int (- int j) + of_nat p) = 2 powr real p * 2 powr of_int (- int j)"
      by (simp only: powr_add)
    then show ?thesis by (simp add: pw' powr_realpow)
  qed
  have lo: "(2::real) ^ (p - 1) / 2 ^ j \<le> \<bar>x\<bar>" using assms(1) xpos by (simp add: field_simps)
  have hi: "\<bar>x\<bar> < (2::real) ^ p / 2 ^ j" using assms(2) xpos by (simp add: field_simps)
  show "2 powr (of_int (- int j) + of_nat p - 1) \<le> \<bar>x\<bar>" by (subst a) (rule lo)
  show "\<bar>x\<bar> < 2 powr (of_int (- int j) + of_nat p)" by (subst b) (rule hi)
  have "\<bar>x - of_int m / 2 ^ j\<bar> = \<bar>x * 2 ^ j - of_int m\<bar> / 2 ^ j"
    by (simp add: field_simps abs_divide)
  also have "\<dots> < (1 / 2) / 2 ^ j" using assms(3) by (intro divide_strict_right_mono) auto
  finally show "\<bar>x - of_int m / 2 ^ j\<bar> < 2 powr of_int (- int j) / 2" by (simp add: pw')
qed

lemma fl_zero: "fl p 0 = 0"
  by (simp add: fl_def)

lemma scale_into_binade:
  fixes n :: nat
  assumes "n < 2 ^ p" "2 ^ (p - 1) \<le> n * 2 ^ k" "0 < p"
  shows "\<exists>j. 2 ^ (p - 1) \<le> n * 2 ^ j \<and> n * 2 ^ j < 2 ^ p"
  using assms(2)
proof (induction k)
  case 0
  then have "2 ^ (p - 1) \<le> n * 2 ^ 0" by simp
  moreover have "n * 2 ^ 0 < 2 ^ p" using assms(1) by simp
  ultimately show ?case by blast
next
  case (Suc k)
  show ?case
  proof (cases "2 ^ (p - 1) \<le> n * 2 ^ k")
    case True
    then show ?thesis by (rule Suc.IH)
  next
    case False
    then have "n * 2 ^ k < 2 ^ (p - 1)" by simp
    then have "2 * (n * 2 ^ k) < 2 * 2 ^ (p - 1)" by simp
    moreover have "(2::nat) * 2 ^ (p - 1) = 2 ^ p" using assms(3) by (cases p) simp_all
    moreover have "n * 2 ^ Suc k = 2 * (n * 2 ^ k)" by simp
    ultimately have "n * 2 ^ Suc k < 2 ^ p" by simp
    with Suc.prems show ?thesis by blast
  qed
qed

lemma fl_nat:
  assumes "0 < n" "n < 2 ^ p"
  shows "fl p (real n) = real n"
proof -
  have pp: "0 < p" using assms by (cases p) auto
  have "(2::nat) ^ (p - 1) * 1 \<le> 2 ^ (p - 1) * n" using assms(1) by (intro mult_le_mono2) simp
  then have "2 ^ (p - 1) \<le> n * 2 ^ (p - 1)" by (simp add: mult.commute)
  from scale_into_binade[OF assms(2) this pp]
  obtain j where j: "2 ^ (p - 1) \<le> n * 2 ^ j" "n * 2 ^ j < 2 ^ p" by blast
  have "real (2 ^ (p - 1)) \<le> real (n * 2 ^ j)" using j(1) by (simp only: of_nat_le_iff)
  then have 1: "(2::real) ^ (p - 1) \<le> real n * 2 ^ j" by simp
  have "real (n * 2 ^ j) < real (2 ^ p)" using j(2) by (simp only: of_nat_less_iff)
  then have 2: "real n * 2 ^ j < 2 ^ p" by simp
  have 3: "\<bar>real n * 2 ^ j - of_int (int (n * 2 ^ j))\<bar> < 1 / 2" by simp
  have "fl p (real n) = of_int (int (n * 2 ^ j)) / 2 ^ j" using 1 2 3 pp by (rule fl_near_frac)
  then show ?thesis by simp
qed

lemma f64_simps [simp]: "f64 0 = 0" "f64 1 = 1" "numeral w < (2::nat) ^ 53 \<Longrightarrow> f64 (numeral w) = numeral w"
proof -
  show "f64 0 = 0" by (simp add: f64_def fl_zero)
  show "f64 1 = 1" using fl_nat[of 1 53] by (simp add: f64_def)
  show "numeral w < (2::nat) ^ 53 \<Longrightarrow> f64 (numeral w) = numeral w"
    using fl_nat[of "numeral w" 53] by (simp add: f64_def)
qed

lemma f32_simps [simp]: "f32 0 = 0" "f32 1 = 1" "numeral w < (2::nat) ^ 24 \<Longrightarrow> f32 (numeral w) = numeral w"
proof -
  show "f32 0 = 0" by (simp add: f32_def fl_zero)
  show "f32 1 = 1" using fl_nat[of 1 24] by (simp add: f32_def)
  show "numeral w < (2::nat) ^ 24 \<Longrightarrow> f32 (numeral w) = numeral w"
    using fl_nat[of "numeral w" 24] by (simp add: f32_def)
qed









subsection \<open>Cohesion\<close>

text \<open>
  Claim C4 fails on the code. The mask \<^verbatim>\<open>upper_triangle > 0\<close> of line 307, meant to select
  the upper triangle, also drops every pair whose similarity is not positive: for the
  vectors (1,0), (0,1), (1,0) the pairwise cosine similarities are 0, 1 and 0, whose mean is
  1/3, and the code returns 1.
\<close>

theorem cohesion_ignores_nonpositive_pairs: "calculate_cluster_cohesion [[1, 0], [0, 1], [1, 0]] = 1
   \<and> mean_pairwise_cosine [[1, 0], [0, 1], [1, 0]] = 1 / 3"
  by (simp add: calculate_cluster_cohesion_def normalize_embeddings_def normalize_row_def l2_norm_def
      similarity_matrix_def triu1_def dot_def fsum_def mean_def mean_pairwise_cosine_def pairwise_cosines_def
      cosine_def inner_product_def upt_rec[of 0] upt_rec[of 1] upt_rec[of 2] upt_rec[of 3] Let_def)

subsection \<open>Insertion\<close>

lemma new_vector_store_inv: "new_vector_store dm ty = Inr s \<Longrightarrow> store_inv s"
  by (auto simp: new_vector_store_def initialize_index_def store_inv_def index_flat_ip_def
      index_ivf_flat_def split: if_splits)

lemma store_embeddings_mismatch:
  "length embeddings \<noteq> length md \<Longrightarrow> store_embeddings self embeddings md = (Inr False, self)"
  by (simp add: store_embeddings_def store_embeddings_try_def)

lemma train_if_necessary_inv:
  assumes "store_inv self" "train_if_necessary self xs = (r, self1)"
  shows "(r = Inr () \<and> store_inv self1 \<and> is_trained self1 \<and> stored_vectors self1 = stored_vectors self
            \<and> metadata self1 = metadata self
            \<and> (\<forall>idx1. index self1 = Some idx1 \<longrightarrow> list_all (\<lambda>x. length x = d idx1) (astype_float32 xs)))
       \<or> self1 = self"
proof (cases "\<not> is_trained self \<and> index_type self = ''ivf''")
  case False
  with assms show ?thesis by (auto simp: train_if_necessary_def)
next
  case True
  from assms(1) True obtain idx where idx: "index self = Some idx" "idx = index_ivf_flat (dimension self)"
      "metadata self = []"
    by (auto simp: store_inv_def split: option.splits)
  show ?thesis
  proof (cases "100 \<le> length xs")
    case big: True
    show ?thesis
    proof (cases "index_train idx (astype_float32 xs)")
      case (Inl e)
      with assms(2) True big idx show ?thesis by (simp add: train_if_necessary_def)
    next
      case (Inr idx')
      then have idx': "idx' = idx\<lparr>index_trained := True\<rparr>"
        and dims: "list_all (\<lambda>x. length x = d idx') (astype_float32 xs)"
        by (auto simp: index_train_def split: if_splits)
      from assms(2) True big idx Inr have s1: "self1 = self\<lparr>index := Some idx', is_trained := True\<rparr>"
        and r: "r = Inr ()" by (auto simp: train_if_necessary_def)
      have "store_inv self1" using assms(1) idx idx' s1
        by (simp add: store_inv_def index_ivf_flat_def)
      then show ?thesis using s1 r idx idx' dims by (simp add: stored_vectors_def)
    qed
  next
    case small: False
    have "initialize_index self = Inr (self\<lparr>index := Some (index_ivf_flat (dimension self)), is_trained := False\<rparr>)"
      using True by (simp add: initialize_index_def)
    moreover have "self\<lparr>index := Some (index_ivf_flat (dimension self)), is_trained := False\<rparr> = self"
      using True idx by simp
    ultimately show ?thesis using assms(2) True small by (simp add: train_if_necessary_def)
  qed
qed

lemma store_embeddings_step:
  assumes "store_inv self" "store_embeddings self embeddings md = (r, self')"
  shows "store_inv self' \<and>
         ((r = Inr True \<and> stored_vectors self' = stored_vectors self @ astype_float32 (normalize_embeddings embeddings)
             \<and> metadata self' = metadata self @ md)
          \<or> (r = Inr False \<and> self' = self))"
proof (cases "length embeddings = length md")
  case False
  with assms show ?thesis by (simp add: store_embeddings_mismatch)
next
  case len: True
  let ?n = "normalize_embeddings embeddings"
  obtain r1 self1 where t: "train_if_necessary self ?n = (r1, self1)" by (cases "train_if_necessary self ?n")
  from train_if_necessary_inv[OF assms(1) t]
  consider (ok) "r1 = Inr ()" "store_inv self1" "is_trained self1" "stored_vectors self1 = stored_vectors self"
      "metadata self1 = metadata self" "\<forall>idx1. index self1 = Some idx1 \<longrightarrow> list_all (\<lambda>x. length x = d idx1) (astype_float32 ?n)"
    | (same) "self1 = self" by blast
  then show ?thesis
  proof cases
    case same
    show ?thesis
    proof (cases r1)
      case (Inl e)
      with assms t len same show ?thesis
        by (simp add: store_embeddings_def store_embeddings_try_def Let_def)
    next
      case (Inr u)
      show ?thesis
      proof (cases "is_trained self")
        case False
        with assms t len same Inr show ?thesis
          by (simp add: store_embeddings_def store_embeddings_try_def Let_def)
      next
        case True
        from assms(1) obtain idx where idx: "index self = Some idx"
          by (auto simp: store_inv_def split: option.splits)
        show ?thesis
        proof (cases "index_add idx (astype_float32 ?n)")
          case (Inl e)
          with assms t len same Inr True idx show ?thesis
            by (simp add: store_embeddings_def store_embeddings_try_def Let_def)
        next
          case add: (Inr idx')
          then have idx': "idx' = idx\<lparr>vectors := vectors idx @ astype_float32 ?n\<rparr>"
            and dims: "list_all (\<lambda>x. length x = d idx) (astype_float32 ?n)"
            by (auto simp: index_add_def split: if_splits)
          from assms t len same Inr True idx add
          have s': "self' = self\<lparr>index := Some idx', metadata := metadata self @ md\<rparr>" and r: "r = Inr True"
            by (auto simp: store_embeddings_def store_embeddings_try_def Let_def)
          have "length (astype_float32 ?n) = length md"
            using len by (simp add: normalize_embeddings_def astype_float32_def)
          then have "store_inv self'"
            using assms(1) idx idx' s' dims True
            by (auto simp: store_inv_def list_all_iff)
          then show ?thesis using s' r idx idx' by (simp add: stored_vectors_def)
        qed
      qed
    qed
  next
    case ok
    from ok(2) obtain idx where idx: "index self1 = Some idx"
      by (auto simp: store_inv_def split: option.splits)
    show ?thesis
    proof (cases "index_add idx (astype_float32 ?n)")
      case (Inl e)
      moreover have "index_trained idx" "list_all (\<lambda>x. length x = d idx) (astype_float32 ?n)"
        using ok idx by (auto simp: store_inv_def)
      ultimately have False by (simp add: index_add_def)
      then show ?thesis ..
    next
      case add: (Inr idx')
      then have idx': "idx' = idx\<lparr>vectors := vectors idx @ astype_float32 ?n\<rparr>"
        and dims: "list_all (\<lambda>x. length x = d idx) (astype_float32 ?n)"
        by (auto simp: index_add_def split: if_splits)
      from assms t len ok idx add
      have s': "self' = self1\<lparr>index := Some idx', metadata := metadata self1 @ md\<rparr>" and r: "r = Inr True"
        by (auto simp: store_embeddings_def store_embeddings_try_def Let_def)
      have "length (astype_float32 ?n) = length md"
        using len by (simp add: normalize_embeddings_def astype_float32_def)
      then have "store_inv self'"
        using ok idx idx' s' dims
        by (auto simp: store_inv_def list_all_iff)
      then show ?thesis using s' r idx idx' ok by (simp add: stored_vectors_def)
    qed
  qed
qed


lemma insert_all_inv: "store_inv self \<Longrightarrow> store_inv (insert_all self batches)"
proof (induction batches arbitrary: self)
  case Nil then show ?case by simp
next
  case (Cons b bs)
  obtain e m where b: "b = (e, m)" by (cases b)
  obtain r s' where st: "store_embeddings self e m = (r, s')" by (cases "store_embeddings self e m")
  from store_embeddings_step[OF Cons.prems st] have "store_inv s'" by simp
  from Cons.IH[OF this] show ?case using b st by simp
qed

lemma store_inv_lengths: "store_inv self \<Longrightarrow> length (metadata self) = length (stored_vectors self)"
  by (auto simp: store_inv_def stored_vectors_def split: option.splits)

text \<open>
  Claim C8. For a store built by the constructor and any sequence of insert calls, an insert
  either returns \<^verbatim>\<open>True\<close> and has appended the whole normalized batch to the index and the
  whole metadata batch to the metadata list, or returns \<^verbatim>\<open>False\<close> and has left the store
  unchanged; afterwards the metadata list is as long as the index holds vectors.
\<close>

theorem store_embeddings_all_or_nothing:
  assumes "new_vector_store dm ty = Inr s0"
    and "self = insert_all s0 batches"
    and "store_embeddings self embeddings md = (r, self')"
  shows "((r = Inr True \<and> stored_vectors self' = stored_vectors self @ astype_float32 (normalize_embeddings embeddings)
             \<and> metadata self' = metadata self @ md)
          \<or> (r = Inr False \<and> self' = self))
       \<and> length (metadata self') = length (stored_vectors self')"
proof -
  have "store_inv self" using assms(1,2) by (simp add: new_vector_store_inv insert_all_inv)
  from store_embeddings_step[OF this assms(3)] show ?thesis
    using store_inv_lengths[of self'] by blast
qed

theorem store_embeddings_all_or_nothing_witness:
  "new_vector_store 2 ''flat'' = Inr \<lparr>dimension = 2, index_type = ''flat'', index = Some (index_flat_ip 2), metadata = [], is_trained = True\<rparr>
   \<and> store_embeddings (insert_all \<lparr>dimension = 2, index_type = ''flat'', index = Some (index_flat_ip 2), metadata = [], is_trained = True\<rparr> [])
         [[1, 0]] [[''ticket_index'' \<mapsto> PInt 0]]
       = (Inr True, \<lparr>dimension = 2, index_type = ''flat'',
            index = Some \<lparr>kind = IndexFlatIP, d = 2, index_trained = True, vectors = [[1, 0]]\<rparr>,
            metadata = [[''ticket_index'' \<mapsto> PInt 0]], is_trained = True\<rparr>)
   \<and> length (metadata \<lparr>dimension = 2, index_type = ''flat'',
            index = Some \<lparr>kind = IndexFlatIP, d = 2, index_trained = True, vectors = [[1, 0]]\<rparr>,
            metadata = [[''ticket_index'' \<mapsto> PInt 0]], is_trained = True\<rparr>)
       = length (stored_vectors \<lparr>dimension = 2, index_type = ''flat'',
            index = Some \<lparr>kind = IndexFlatIP, d = 2, index_trained = True, vectors = [[1, 0]]\<rparr>,
            metadata = [[''ticket_index'' \<mapsto> PInt 0]], is_trained = True\<rparr>)"
proof -
  let ?s0 = "\<lparr>dimension = 2, index_type = ''flat'', index = Some (index_flat_ip 2), metadata = [], is_trained = True\<rparr>"
  let ?s1 = "\<lparr>dimension = 2, index_type = ''flat'',
            index = Some \<lparr>kind = IndexFlatIP, d = 2, index_trained = True, vectors = [[1, 0 :: real]]\<rparr>,
            metadata = [[''ticket_index'' \<mapsto> PInt 0]], is_trained = True\<rparr>"
  have h1: "new_vector_store 2 ''flat'' = Inr ?s0"
    by (simp add: new_vector_store_def initialize_index_def)
  have h2: "?s0 = insert_all ?s0 []" by simp
  have h3: "store_embeddings ?s0 [[1, 0]] [[''ticket_index'' \<mapsto> PInt 0]] = (Inr True, ?s1)"
    by (simp add: store_embeddings_def store_embeddings_try_def train_if_necessary_def index_add_def
        index_flat_ip_def normalize_embeddings_def normalize_row_def l2_norm_def fsum_def astype_float32_def)
  from store_embeddings_all_or_nothing [OF h1 h2 h3] h1 h3 show ?thesis by simp
qed

subsection \<open>Search\<close>















subsection \<open>Rejected input\<close>

text \<open>
  Claim C3, as amended. When the number of vectors differs from the number of metadata
  entries, the insert raises a validation error inside its own \<^verbatim>\<open>try\<close> block, its handler
  catches it, and the caller receives the return value \<^verbatim>\<open>False\<close> with the store unchanged.
\<close>

theorem store_embeddings_length_mismatch:
  assumes "length embeddings \<noteq> length md"
  shows "store_embeddings_try self embeddings md = (Inl ValueError, self)
       \<and> store_embeddings self embeddings md = (Inr False, self)"
  using assms by (simp add: store_embeddings_def store_embeddings_try_def)

theorem store_embeddings_length_mismatch_witness:
  "length [[1, 0 :: real]] \<noteq> length ([] :: pydict list)
   \<and> store_embeddings \<lparr>dimension = 2, index_type = ''flat'', index = Some (index_flat_ip 2), metadata = [], is_trained = True\<rparr>
        [[1, 0]] []
     = (Inr False, \<lparr>dimension = 2, index_type = ''flat'', index = Some (index_flat_ip 2), metadata = [], is_trained = True\<rparr>)"
  using store_embeddings_length_mismatch [of "[[1, 0]]" "[]"
      "\<lparr>dimension = 2, index_type = ''flat'', index = Some (index_flat_ip 2), metadata = [], is_trained = True\<rparr>"]
  by simp

text \<open>
  Claim C3, as stated, fails: one vector with no metadata entry is rejected by the return
  value \<^verbatim>\<open>False\<close>, not by an error that reaches the caller.
\<close>

theorem store_embeddings_mismatch_counterexample:
  "new_vector_store 2 ''flat'' = Inr \<lparr>dimension = 2, index_type = ''flat'', index = Some (index_flat_ip 2), metadata = [], is_trained = True\<rparr>
   \<and> length [[1, 0 :: real]] \<noteq> length ([] :: pydict list)
   \<and> fst (store_embeddings \<lparr>dimension = 2, index_type = ''flat'', index = Some (index_flat_ip 2), metadata = [], is_trained = True\<rparr>
        [[1, 0]] []) = Inr False"
  by (simp add: new_vector_store_def initialize_index_def store_embeddings_def store_embeddings_try_def)

section \<open>Properties of the Embedding Clustering Controller\<close>

text \<open>
  Claim C10. For every query text and \<open>k\<close>, \<^verbatim>\<open>find_similar_tickets\<close> returns a list and
  raises nothing; the list is empty when the vector store or the embedding provider is
  unavailable, when the embedding request fails, and when the index search fails.
\<close>

theorem find_similar_tickets_never_raises:
  "(\<exists>results. find_similar_tickets c self query_ticket k = Inr results)
   \<and> (vector_store self = None \<or> \<not> use_openai self \<longrightarrow> find_similar_tickets c self query_ticket k = Inr [])
   \<and> (\<forall>e. generate_embeddings c [query_ticket] = Inl e \<longrightarrow> find_similar_tickets c self query_ticket k = Inr [])
   \<and> (\<forall>vs embeddings query_embedding e.
          vector_store self = Some vs \<and> generate_embeddings c [query_ticket] = Inr embeddings
          \<and> py_index embeddings 0 = Inr query_embedding
          \<and> search_similar_tickets_try vs query_embedding k (5 / 10) = Inl e
          \<longrightarrow> find_similar_tickets c self query_ticket k = Inr [])"
proof -
  have 1: "\<exists>results. find_similar_tickets c self query_ticket k = Inr results"
    by (simp add: find_similar_tickets_def split: option.splits sum.splits)
  have 2: "vector_store self = None \<or> \<not> use_openai self \<longrightarrow> find_similar_tickets c self query_ticket k = Inr []"
    by (auto simp: find_similar_tickets_def split: option.splits)
  have 3: "\<forall>e. generate_embeddings c [query_ticket] = Inl e \<longrightarrow> find_similar_tickets c self query_ticket k = Inr []"
    by (auto simp: find_similar_tickets_def split: option.splits)
  have 4: "\<forall>vs embeddings query_embedding e.
          vector_store self = Some vs \<and> generate_embeddings c [query_ticket] = Inr embeddings
          \<and> py_index embeddings 0 = Inr query_embedding
          \<and> search_similar_tickets_try vs query_embedding k (5 / 10) = Inl e
          \<longrightarrow> find_similar_tickets c self query_ticket k = Inr []"
    by (auto simp: find_similar_tickets_def search_similar_tickets_def)
  from 1 2 3 4 show ?thesis by blast
qed

theorem find_similar_tickets_never_raises_witness:
  "use_openai (new_engine True True) \<and> vector_store (new_engine True True) \<noteq> None
   \<and> generate_embeddings failing_provider [''VPN down''] = Inl ProviderError
   \<and> find_similar_tickets failing_provider (new_engine True True) ''VPN down'' 5 = Inr []"
proof -
  have g: "generate_embeddings failing_provider [''VPN down''] = Inl ProviderError"
    by (simp add: generate_embeddings_def failing_provider_def)
  have e: "use_openai (new_engine True True) \<and> vector_store (new_engine True True) \<noteq> None"
    by (simp add: new_engine_def new_vector_store_def initialize_index_def)
  from find_similar_tickets_never_raises [of failing_provider "new_engine True True" "''VPN down''" 5] g e
  show ?thesis by blast
qed

text \<open>
  Claim C2, as amended. The top-level clustering call never raises. For a batch of more than
  one ticket (or none), an engine whose provider was unavailable at construction uses the
  lexical path and returns one cluster of all tickets if that path fails; an engine whose
  provider is available uses the embedding path and, if that path fails for any reason,
  a failed embedding request among them, returns one cluster of all tickets without trying
  the lexical path.
\<close>

theorem cluster_tickets_fallback:
  "(\<exists>clusters. fst (cluster_tickets c self tickets) = Inr clusters)
   \<and> (length tickets \<noteq> 1 \<and> \<not> use_openai self \<longrightarrow>
        fst (cluster_tickets c self tickets)
          = (case cluster_with_sklearn c tickets of
               Inr clusters \<Rightarrow> Inr clusters
             | Inl e \<Rightarrow> Inr [(''General Issues'', [0..<length tickets])]))
   \<and> (length tickets \<noteq> 1 \<and> use_openai self \<longrightarrow>
        (\<forall>e. fst (cluster_with_openai c self tickets) = Inl e \<longrightarrow>
           fst (cluster_tickets c self tickets) = Inr [(''General Issues'', [0..<length tickets])]))
   \<and> (\<forall>e. generate_embeddings c tickets = Inl e \<longrightarrow> fst (cluster_with_openai c self tickets) = Inl e)"
proof -
  have 1: "\<exists>clusters. fst (cluster_tickets c self tickets) = Inr clusters"
    by (simp add: cluster_tickets_def split: prod.splits sum.splits)
  have 2: "length tickets \<noteq> 1 \<and> \<not> use_openai self \<longrightarrow>
        fst (cluster_tickets c self tickets)
          = (case cluster_with_sklearn c tickets of
               Inr clusters \<Rightarrow> Inr clusters
             | Inl e \<Rightarrow> Inr [(''General Issues'', [0..<length tickets])])"
    by (simp add: cluster_tickets_def split: sum.splits)
  have 3: "length tickets \<noteq> 1 \<and> use_openai self \<longrightarrow>
        (\<forall>e. fst (cluster_with_openai c self tickets) = Inl e \<longrightarrow>
           fst (cluster_tickets c self tickets) = Inr [(''General Issues'', [0..<length tickets])])"
    by (auto simp: cluster_tickets_def split: prod.splits sum.splits)
  have 4: "\<forall>e. generate_embeddings c tickets = Inl e \<longrightarrow> fst (cluster_with_openai c self tickets) = Inl e"
    by (simp add: cluster_with_openai_def)
  from 1 2 3 4 show ?thesis by blast
qed

lemma example_preprocessed:
  "map preprocess_ticket example_tickets = [''vpn connection timeout'', ''outlook email not syncing'', ''email inbox full'']"
  unfolding example_tickets_def by code_simp

lemma example_lexical:
  "cluster_with_sklearn failing_provider example_tickets = Inr [(''Network Issues'', [0]), (''Email Issues'', [1, 2])]"
  unfolding example_tickets_def by code_simp


text \<open>
  Claim C2, as stated, fails: with a provider that is available and raises on the embedding
  request, the lexical path would return two clusters for the three example tickets, but the
  call returns the single cluster of all tickets.
\<close>

theorem cluster_tickets_provider_error_counterexample:
  "length example_tickets = 3 \<and> use_openai (new_engine True False)
   \<and> generate_embeddings failing_provider example_tickets = Inl ProviderError
   \<and> cluster_with_sklearn failing_provider example_tickets
       = Inr [(''Network Issues'', [0]), (''Email Issues'', [1, 2])]
   \<and> fst (cluster_tickets failing_provider (new_engine True False) example_tickets)
       = Inr [(''General Issues'', [0, 1, 2])]"
proof -
  have g: "generate_embeddings failing_provider example_tickets = Inl ProviderError"
    by (simp add: generate_embeddings_def failing_provider_def)
  have u: "use_openai (new_engine True False)" by (simp add: new_engine_def)
  have l: "length example_tickets = 3" by (simp add: example_tickets_def)
  have "fst (cluster_tickets failing_provider (new_engine True False) example_tickets)
       = Inr [(''General Issues'', [0..<3])]"
    using g u l by (simp add: cluster_tickets_def cluster_with_openai_def)
  moreover have "[0..<3] = [0, 1, 2::nat]" by (simp add: upt_rec)
  ultimately show ?thesis using g u l example_lexical by simp
qed

theorem cluster_tickets_fallback_witness:
  "length example_tickets \<noteq> 1 \<and> \<not> use_openai (new_engine False False)
   \<and> fst (cluster_tickets failing_provider (new_engine False False) example_tickets)
       = Inr [(''Network Issues'', [0]), (''Email Issues'', [1, 2])]"
proof -
  have u: "\<not> use_openai (new_engine False False)" by (simp add: new_engine_def)
  have l: "length example_tickets \<noteq> 1" by (simp add: example_tickets_def)
  from cluster_tickets_fallback [of failing_provider "new_engine False False" example_tickets] u l
  have "fst (cluster_tickets failing_provider (new_engine False False) example_tickets)
          = (case cluster_with_sklearn failing_provider example_tickets of
               Inr clusters \<Rightarrow> Inr clusters
             | Inl e \<Rightarrow> Inr [(''General Issues'', [0..<length example_tickets])])" by blast
  with u l show ?thesis by (simp add: example_lexical)
qed

text \<open>
  Claim C1 fails on the code. When the naming oracle gives two clusters the same name, the
  second assignment of line 188 overwrites the first: for three tickets with labels 0, 1, 1
  and the name \<^verbatim>\<open>Network Issues\<close> for both clusters, the result holds the indices 1 and 2
  only, and index 0 is in no cluster.
\<close>

theorem cluster_tickets_duplicate_names_lose_tickets:
  "length example_tickets = 3
   \<and> fst (cluster_tickets mock_collaborators (new_engine True False) example_tickets)
       = Inr [(''Network Issues'', [1, 2])]
   \<and> 0 \<notin> set (concat (map snd [(''Network Issues'', [1, 2 :: nat])]))"
proof -
  have l: "length example_tickets = 3" by (simp add: example_tickets_def)
  have e: "generate_embeddings mock_collaborators example_tickets = Inr [[1, 0], [1, 0], [1, 0]]"
    by (simp add: generate_embeddings_def mock_collaborators_def example_tickets_def)
  have k: "kmeans_fit_predict mock_collaborators (determine_cluster_count 3) [[1, 0], [1, 0], [1, 0]] = Inr [0, 1, 1]"
    by (simp add: mock_collaborators_def upt_rec)
  have g: "group_by_label 0 [0, 1, 1] [] = [(0, [0]), (1, [1, 2])]" by simp
  have n: "generate_cluster_names mock_collaborators example_tickets [(0, [0]), (1, [1, 2])]
        = Inr [(''Network Issues'', [1, 2])]"
    by (simp add: generate_cluster_names_def sample_of_def mock_collaborators_def example_tickets_def)
  have u: "use_openai (new_engine True False)" and v: "vector_store (new_engine True False) = None"
    by (simp_all add: new_engine_def)
  have "cluster_with_openai mock_collaborators (new_engine True False) example_tickets
       = (generate_cluster_names mock_collaborators example_tickets (group_by_label 0 [0, 1, 1] []),
          new_engine True False)"
    using e k l v by (simp add: cluster_with_openai_def del: group_by_label.simps)
  then have cw: "cluster_with_openai mock_collaborators (new_engine True False) example_tickets
       = (Inr [(''Network Issues'', [1, 2])], new_engine True False)"
    by (simp only: g n)
  have "fst (cluster_tickets mock_collaborators (new_engine True False) example_tickets)
       = Inr [(''Network Issues'', [1, 2])]"
    using l u by (simp add: cluster_tickets_def cw)
  with l show ?thesis by simp
qed

end
